theory Spec2Isabelle
  imports Complex_Main
begin

section \<open>The image creation module of GladTeX (gleetex/image.py)\<close>

text \<open>
  The module drives two external tools, \<^verbatim>\<open>latex\<close> and \<^verbatim>\<open>dvipng\<close>, and cleans up
  the files they leave behind. The embedding makes the file system and the tools
  explicit:
  \<^item> a Python \<^verbatim>\<open>str\<close> is a \<^typ>\<open>string\<close>; code points beyond U+00FF are outside the model,
    and the encoding of file names is UTF-8, in which every such text can be encoded;
  \<^item> the file system is the set of the existing files, each named by its resolved
    path, the set of those among them that \<^verbatim>\<open>os.remove\<close> cannot remove (a directory, a
    file in a directory without write permission), and the current working directory;
    every directory that a path names exists, and paths are compared as text, without
    normalisation;
  \<^item> an exception is a value of \<open>error\<close>; a function that can raise returns the
    exception or its result, beside the file system it leaves behind.
\<close>

subsection \<open>Exceptions and the file system\<close>

text \<open>
  The exceptions that the module raises, or that the library functions it calls raise.
  Of these only \<open>OSError\<close> is caught by \<^verbatim>\<open>except OSError\<close>, and only
  \<open>SubprocessError\<close> by \<^verbatim>\<open>except subprocess.SubprocessError\<close>.
\<close>

datatype error =
    SubprocessError string
  | OSError
  | ValueError string
  | TypeError string
  | IndexError
  | LookupError
  | UnicodeDecodeError
  | UnicodeEncodeError

type_synonym path = string

record fs =
  files :: "path set"
  cwd :: path
  protected :: "path set"

definition startswith :: "string \<Rightarrow> string \<Rightarrow> bool" where
  "startswith s p = (take (length p) s = p)"

text \<open>
  A path with a NUL character is refused by every function of \<^verbatim>\<open>os\<close>, by \<^verbatim>\<open>open\<close>
  and by \<^verbatim>\<open>Popen\<close> with \<^verbatim>\<open>ValueError\<close>, before the operating system sees it.
\<close>

definition has_nul :: "string \<Rightarrow> bool" where
  "has_nul p = (CHR 0x00 \<in> set p)"

text \<open>A relative path names a file below the current working directory.\<close>

definition resolve :: "path \<Rightarrow> path \<Rightarrow> path" where
  "resolve c p = (if startswith p ''/'' then p else c @ ''/'' @ p)"

text \<open>A name with a NUL character names no file.\<close>

definition exists_file :: "fs \<Rightarrow> path \<Rightarrow> bool" where
  "exists_file s p = (\<not> has_nul p \<and> resolve (cwd s) p \<in> files s)"

text \<open>
  \<^verbatim>\<open>os.remove(file)\<close>: raises \<^verbatim>\<open>ValueError\<close> for a path with a NUL character, and
  \<^verbatim>\<open>OSError\<close> when the file does not exist or cannot be removed.
\<close>

definition os_remove :: "path \<Rightarrow> fs \<Rightarrow> error + fs" where
  "os_remove p s =
     (if has_nul p then Inl (ValueError ''embedded null byte'')
      else if resolve (cwd s) p \<in> files s \<and> resolve (cwd s) p \<notin> protected s
      then Inr (s\<lparr>files := files s - {resolve (cwd s) p}\<rparr>)
      else Inl OSError)"

text \<open>
  The loop \<^verbatim>\<open>for file in files: os.remove(file)\<close>: the first failing removal ends it,
  and the files removed so far stay removed.
\<close>

fun remove_loop :: "path list \<Rightarrow> fs \<Rightarrow> error option \<times> fs" where
  "remove_loop [] s = (None, s)"
| "remove_loop (p # ps) s =
     (case os_remove p s of
        Inl e \<Rightarrow> (Some e, s)
      | Inr s' \<Rightarrow> remove_loop ps s')"

text \<open>
  \<^verbatim>\<open>remove_all(*files)\<close>: the loop inside \<^verbatim>\<open>try\<close>, with \<^verbatim>\<open>except OSError: pass\<close>.
  The first component is the exception that leaves the function, if any.
\<close>

definition remove_all :: "path list \<Rightarrow> fs \<Rightarrow> error option \<times> fs" where
  "remove_all ps s =
     (case remove_loop ps s of
        (Some OSError, s') \<Rightarrow> (None, s')
      | (Some e, s') \<Rightarrow> (Some e, s')
      | (None, s') \<Rightarrow> (None, s'))"

text \<open>
  Statements in sequence, each of which may raise: the second runs when the first has
  not raised. In \<open>with_finally\<close> the second is a \<^verbatim>\<open>finally\<close> block: it always runs, and
  an exception of its own replaces the outcome of the first.
\<close>

definition and_then ::
    "error option \<times> fs \<Rightarrow> (fs \<Rightarrow> error option \<times> fs) \<Rightarrow> error option \<times> fs" where
  "and_then r f = (case r of (None, s) \<Rightarrow> f s | (Some e, s) \<Rightarrow> (Some e, s))"

definition with_finally ::
    "error option \<times> fs \<Rightarrow> (fs \<Rightarrow> error option \<times> fs) \<Rightarrow> error option \<times> fs" where
  "with_finally r f =
     (case r of (x, s) \<Rightarrow>
        (case f s of (Some e, s') \<Rightarrow> (Some e, s') | (None, s') \<Rightarrow> (x, s')))"

subsection \<open>Text\<close>

text \<open>\<^verbatim>\<open>s.split(c)\<close> for a separator of one character: never the empty list.\<close>

fun split_on :: "char \<Rightarrow> string \<Rightarrow> string list" where
  "split_on c [] = [[]]"
| "split_on c (x # xs) =
     (if x = c then [] # split_on c xs
      else (case split_on c xs of [] \<Rightarrow> [[x]] | l # ls \<Rightarrow> (x # l) # ls))"

text \<open>\<^verbatim>\<open>sep.join(xs)\<close>.\<close>

fun join :: "string \<Rightarrow> string list \<Rightarrow> string" where
  "join sep [] = []"
| "join sep [x] = x"
| "join sep (x # y # ys) = x @ sep @ join sep (y # ys)"

definition endswith :: "string \<Rightarrow> string \<Rightarrow> bool" where
  "endswith s p = startswith (rev s) (rev p)"

text \<open>\<^verbatim>\<open>s.rfind(c)\<close>: the highest index of \<open>c\<close>, or \<open>-1\<close>.\<close>

definition rfind :: "char \<Rightarrow> string \<Rightarrow> int" where
  "rfind c s =
     (if c \<in> set s
      then int (length s) - 1 - int (length (takeWhile (\<lambda>x. x \<noteq> c) (rev s)))
      else - 1)"

definition rstrip :: "char \<Rightarrow> string \<Rightarrow> string" where
  "rstrip c s = rev (dropWhile (\<lambda>x. x = c) (rev s))"

text \<open>\<^verbatim>\<open>str(n)\<close> for an integer.\<close>

fun nat_digits :: "nat \<Rightarrow> string" where
  "nat_digits n =
     (if n < 10 then [''0123456789'' ! n]
      else nat_digits (n div 10) @ [''0123456789'' ! (n mod 10)])"

declare nat_digits.simps [simp del]

definition int_str :: "int \<Rightarrow> string" where
  "int_str i = (if i < 0 then ''-'' @ nat_digits (nat (- i)) else nat_digits (nat i))"

subsection \<open>Python values\<close>

text \<open>
  The arguments of the setters are arbitrary Python objects. A float is given by its
  value (a finite one; the code never looks at it).
\<close>

datatype pyval =
    PyNone
  | PyBool bool
  | PyInt int
  | PyFloat rat
  | PyStr string
  | PyList "pyval list"
  | PyTuple "pyval list"

datatype pytype = T_NoneType | T_bool | T_int | T_float | T_str | T_list | T_tuple

fun py_type :: "pyval \<Rightarrow> pytype" where
  "py_type PyNone = T_NoneType"
| "py_type (PyBool b) = T_bool"
| "py_type (PyInt i) = T_int"
| "py_type (PyFloat x) = T_float"
| "py_type (PyStr s) = T_str"
| "py_type (PyList xs) = T_list"
| "py_type (PyTuple xs) = T_tuple"

text \<open>\<^verbatim>\<open>bool\<close> is a subclass of \<^verbatim>\<open>int\<close>.\<close>

definition issubclass :: "pytype \<Rightarrow> pytype \<Rightarrow> bool" where
  "issubclass t c = (t = c \<or> (t = T_bool \<and> c = T_int))"

text \<open>
  The second argument of \<^verbatim>\<open>isinstance\<close> as the source writes it: a type, a tuple of
  types, or a list of types. Python takes the first two; for a list it raises
  \<^verbatim>\<open>TypeError\<close>, whatever the first argument is.
\<close>

datatype classinfo = AType pytype | ATuple "pytype list" | AList "pytype list"

fun isinstance :: "pyval \<Rightarrow> classinfo \<Rightarrow> error + bool" where
  "isinstance v (AType c) = Inr (issubclass (py_type v) c)"
| "isinstance v (ATuple cs) = Inr (list_ex (issubclass (py_type v)) cs)"
| "isinstance v (AList cs) =
     Inl (TypeError ''isinstance() arg 2 must be a type, a tuple of types, or a union'')"

fun py_len :: "pyval \<Rightarrow> error + nat" where
  "py_len (PyStr s) = Inr (length s)"
| "py_len (PyList xs) = Inr (length xs)"
| "py_len (PyTuple xs) = Inr (length xs)"
| "py_len v = Inl (TypeError ''object has no len()'')"

text \<open>\<^verbatim>\<open>x >= 0 and x <= 1\<close>, the test that \<^verbatim>\<open>__check_rgb\<close> hands to \<^verbatim>\<open>all\<close>.\<close>

fun in_unit_interval :: "pyval \<Rightarrow> error + bool" where
  "in_unit_interval (PyInt i) = Inr (0 \<le> i \<and> i \<le> 1)"
| "in_unit_interval (PyBool b) = Inr True"
| "in_unit_interval (PyFloat x) = Inr (0 \<le> x \<and> x \<le> 1)"
| "in_unit_interval v = Inl (TypeError ''>= not supported between these instances'')"

text \<open>
  \<^verbatim>\<open>all(f, xs)\<close>: the builtin takes one argument, an iterable, so a call with two
  raises \<^verbatim>\<open>TypeError\<close> before \<open>f\<close> is applied to anything.
\<close>

definition all_with_two_arguments :: "(pyval \<Rightarrow> error + bool) \<Rightarrow> pyval \<Rightarrow> error + bool" where
  "all_with_two_arguments f xs = Inl (TypeError ''all() takes exactly one argument (2 given)'')"

text \<open>\<^verbatim>\<open>v[i]\<close> for the indices that the colour format uses.\<close>

fun py_getitem :: "pyval \<Rightarrow> nat \<Rightarrow> error + pyval" where
  "py_getitem (PyList xs) i = (if i < length xs then Inr (xs ! i) else Inl IndexError)"
| "py_getitem (PyTuple xs) i = (if i < length xs then Inr (xs ! i) else Inl IndexError)"
| "py_getitem (PyStr s) i = (if i < length s then Inr (PyStr [s ! i]) else Inl IndexError)"
| "py_getitem v i = Inl (TypeError ''object is not subscriptable'')"

text \<open>
  \<^verbatim>\<open>str(v)\<close>. The text of a float and of a container is left to \<open>other\<close>, Python's
  own conversion of these values.
\<close>

fun py_str :: "(pyval \<Rightarrow> string) \<Rightarrow> pyval \<Rightarrow> string" where
  "py_str other PyNone = ''None''"
| "py_str other (PyBool b) = (if b then ''True'' else ''False'')"
| "py_str other (PyInt i) = int_str i"
| "py_str other (PyStr s) = s"
| "py_str other v = other v"

subsection \<open>Path names (\<^verbatim>\<open>os.path\<close> on POSIX)\<close>

definition os_path_split :: "path \<Rightarrow> path \<times> path" where
  "os_path_split p =
     (let i = nat (rfind CHR ''/'' p + 1);
          head = take i p;
          tail = drop i p
      in (if head \<noteq> [] \<and> head \<noteq> replicate (length head) CHR ''/''
          then rstrip CHR ''/'' head else head, tail))"

definition os_path_splitext :: "path \<Rightarrow> path \<times> string" where
  "os_path_splitext p =
     (let sepIndex = rfind CHR ''/'' p;
          dotIndex = rfind CHR ''.'' p
      in if dotIndex > sepIndex \<and>
            list_ex (\<lambda>c. c \<noteq> CHR ''.'')
              (take (nat (dotIndex - (sepIndex + 1))) (drop (nat (sepIndex + 1)) p))
         then (take (nat dotIndex) p, drop (nat dotIndex) p)
         else (p, []))"

definition os_path_join :: "path \<Rightarrow> path \<Rightarrow> path" where
  "os_path_join a b =
     (if startswith b ''/'' then b
      else if a = [] \<or> endswith a ''/'' then a @ b
      else a @ ''/'' @ b)"

text \<open>
  \<^verbatim>\<open>with open(p, mode='w', encoding=enc) as f: f.write(doc)\<close>. What happens depends
  on the codecs of the interpreter and on the directory: the environment says, for the
  resolved path, the encoding and the text, whether the text is written, the encoding
  is unknown (\<^verbatim>\<open>LookupError\<close>), the text cannot be encoded (\<^verbatim>\<open>UnicodeEncodeError\<close>),
  or the file cannot be opened (\<^verbatim>\<open>OSError\<close>). In the second and the third case the
  file has been created when the exception is raised.
\<close>

datatype written = Written | Unknown_encoding | Unencodable | Cannot_open

type_synonym writer = "path \<Rightarrow> string \<Rightarrow> string \<Rightarrow> written"

definition open_write :: "writer \<Rightarrow> path \<Rightarrow> string \<Rightarrow> string \<Rightarrow> fs \<Rightarrow> error option \<times> fs" where
  "open_write wr p enc doc s =
     (if has_nul p then (Some (ValueError ''embedded null byte''), s)
      else case wr (resolve (cwd s) p) enc doc of
             Written \<Rightarrow> (None, s\<lparr>files := insert (resolve (cwd s) p) (files s)\<rparr>)
           | Unknown_encoding \<Rightarrow>
               (Some LookupError, s\<lparr>files := insert (resolve (cwd s) p) (files s)\<rparr>)
           | Unencodable \<Rightarrow>
               (Some UnicodeEncodeError, s\<lparr>files := insert (resolve (cwd s) p) (files s)\<rparr>)
           | Cannot_open \<Rightarrow> (Some OSError, s))"

text \<open>\<^verbatim>\<open>os.chdir(p)\<close>.\<close>

definition os_chdir :: "path \<Rightarrow> fs \<Rightarrow> error option \<times> fs" where
  "os_chdir p s =
     (if has_nul p then (Some (ValueError ''embedded null byte''), s)
      else (None, s\<lparr>cwd := resolve (cwd s) p\<rparr>))"

subsection \<open>External tools\<close>

text \<open>
  What running a command does is not the module's business: a tool is any function of
  the command line, the working directory and the files. Either the program cannot be
  started (\<^verbatim>\<open>Popen\<close> raises \<^verbatim>\<open>OSError\<close>), or it exits with a status, having
  written bytes to its standard output and standard error and having changed the
  files. A stream is given by the text that its bytes decode to in the default
  encoding, if they do; the empty stream is \<open>Decodes []\<close>. A tool cannot change the
  working directory of the process that called it.
\<close>

datatype stream = Decodes string | Undecodable

datatype outcome = NotStarted | Exited int stream stream "path set"

type_synonym tool = "string list \<Rightarrow> path \<Rightarrow> path set \<Rightarrow> outcome"

text \<open>
  \<^verbatim>\<open>[d.decode(sys.getdefaultencoding()) for d in proc.communicate() if d]\<close>: the
  streams that are not empty, decoded in their order; the first that does not decode
  raises \<^verbatim>\<open>UnicodeDecodeError\<close>.
\<close>

fun decoded :: "stream list \<Rightarrow> error + string list" where
  "decoded [] = Inr []"
| "decoded (Undecodable # ds) = Inl UnicodeDecodeError"
| "decoded (Decodes t # ds) =
     (if t = [] then decoded ds
      else (case decoded ds of Inl e \<Rightarrow> Inl e | Inr ts \<Rightarrow> Inr (t # ts)))"

text \<open>
  \<^verbatim>\<open>call(cmd)\<close>. \<^verbatim>\<open>Popen\<close> raises \<^verbatim>\<open>IndexError\<close> for an empty command, where it
  looks for the program in \<^verbatim>\<open>args[0]\<close>, and refuses an argument with a NUL character;
  the output is decoded before the exit status is looked at.
\<close>

definition call :: "tool \<Rightarrow> string list \<Rightarrow> fs \<Rightarrow> (error + string list) \<times> fs" where
  "call run cmd s =
     (if cmd = [] then (Inl IndexError, s)
      else if list_ex has_nul cmd then (Inl (ValueError ''embedded null byte''), s)
      else case run cmd (cwd s) (files s) of
             NotStarted \<Rightarrow> (Inl OSError, s)
           | Exited status out err fl \<Rightarrow>
               (case decoded [out, err] of
                  Inl e \<Rightarrow> (Inl e, s\<lparr>files := fl\<rparr>)
                | Inr data \<Rightarrow>
                    if status \<noteq> 0
                    then (Inl (SubprocessError
                           (''Error while executing '' @ join '' '' cmd @
                            join ''\<newline>'' data)), s\<lparr>files := fl\<rparr>)
                    else (Inr data, s\<lparr>files := fl\<rparr>)))"

subsection \<open>The class \<^verbatim>\<open>Tex2img\<close>\<close>

text \<open>
  The attributes of an instance; the private ones keep their names without the
  underscores. \<open>parsed_data\<close> is \<^verbatim>\<open>None\<close> or the dictionary that \<^verbatim>\<open>create_png\<close>
  returned, as the list of its items.
\<close>

record tex2img =
  tex_document :: string
  output_name :: path
  encoding :: string
  parsed_data :: "(string \<times> pyval) list option"
  dpi :: pyval
  keep_log :: bool
  background :: string
  foreground :: string

text \<open>\<^verbatim>\<open>Tex2img(tex_document, output_fn, encoding)\<close>.\<close>

definition Tex2img :: "string \<Rightarrow> path \<Rightarrow> string \<Rightarrow> tex2img" where
  "Tex2img doc output_fn enc =
     \<lparr>tex_document = doc, output_name = output_fn, encoding = enc, parsed_data = None,
      dpi = PyInt 100, keep_log = False, background = ''transparent'',
      foreground = ''rgb 0 0 0''\<rparr>"

text \<open>
  The setters return the changed instance, or the exception they raise; in that case
  the instance is as it was.
\<close>

definition set_dpi :: "tex2img \<Rightarrow> pyval \<Rightarrow> error + tex2img" where
  "set_dpi self v =
     (case isinstance v (AType T_int) of
        Inl e \<Rightarrow> Inl e
      | Inr b \<Rightarrow>
          if \<not> b then Inl (TypeError ''Dpi must be an integer'')
          else Inr (self\<lparr>dpi := v\<rparr>))"


text \<open>
  \<^verbatim>\<open>__check_rgb\<close>. The condition \<^verbatim>\<open>not isinstance(..) or len(..) != 3\<close> evaluates
  \<^verbatim>\<open>isinstance\<close> first and \<^verbatim>\<open>len\<close> only when the first disjunct is false.
\<close>

definition check_rgb :: "pyval \<Rightarrow> error + unit" where
  "check_rgb rgb_list =
     (case isinstance rgb_list (AList [T_list, T_tuple]) of
        Inl e \<Rightarrow> Inl e
      | Inr b \<Rightarrow>
          (case (if b then py_len rgb_list else Inr 0) of
             Inl e \<Rightarrow> Inl e
           | Inr n \<Rightarrow>
               if b \<and> n = 3
               then (case all_with_two_arguments in_unit_interval rgb_list of
                       Inl e \<Rightarrow> Inl e
                     | Inr ok \<Rightarrow>
                         if ok then Inr ()
                         else Inl (ValueError ''RGB values must between 0 and 1''))
               else Inl (ValueError
                      ''A list with three broken decimals between 0 and 1 expected.'')))"

text \<open>\<^verbatim>\<open>'rgb {0[0]} {0[1]} {0[2]}'.format(rgb_list)\<close>.\<close>

definition format_rgb :: "(pyval \<Rightarrow> string) \<Rightarrow> pyval \<Rightarrow> error + string" where
  "format_rgb other rgb_list =
     (case py_getitem rgb_list 0 of
        Inl e \<Rightarrow> Inl e
      | Inr r \<Rightarrow>
          (case py_getitem rgb_list 1 of
             Inl e \<Rightarrow> Inl e
           | Inr g \<Rightarrow>
               (case py_getitem rgb_list 2 of
                  Inl e \<Rightarrow> Inl e
                | Inr b \<Rightarrow>
                    Inr (''rgb '' @ py_str other r @ '' '' @ py_str other g @ '' '' @
                         py_str other b))))"

definition set_background_color :: "(pyval \<Rightarrow> string) \<Rightarrow> tex2img \<Rightarrow> pyval \<Rightarrow> error + tex2img" where
  "set_background_color other self rgb_list =
     (case check_rgb rgb_list of
        Inl e \<Rightarrow> Inl e
      | Inr u \<Rightarrow>
          (case format_rgb other rgb_list of
             Inl e \<Rightarrow> Inl e
           | Inr c \<Rightarrow> Inr (self\<lparr>background := c\<rparr>)))"

definition set_foreground_color :: "(pyval \<Rightarrow> string) \<Rightarrow> tex2img \<Rightarrow> pyval \<Rightarrow> error + tex2img" where
  "set_foreground_color other self rgb_list =
     (case check_rgb rgb_list of
        Inl e \<Rightarrow> Inl e
      | Inr u \<Rightarrow>
          (case format_rgb other rgb_list of
             Inl e \<Rightarrow> Inl e
           | Inr c \<Rightarrow> Inr (self\<lparr>foreground := c\<rparr>)))"

definition get_positioning_info :: "tex2img \<Rightarrow> (string \<times> pyval) list option" where
  "get_positioning_info self = parsed_data self"

subsection \<open>\<^verbatim>\<open>parse_log\<close>\<close>

text \<open>
  The loop over the lines of the log, with the flag \<open>copy\<close> and the list \<open>lines\<close>. A
  line that starts with \<^verbatim>\<open>"! "\<close> sets the flag; the source then strips the marker from
  its loop variable and does nothing else with the line. Any other line is appended
  while the flag is set, unless it starts with one of the three trailers, which ends
  the loop.
\<close>

fun parse_loop :: "bool \<Rightarrow> string list \<Rightarrow> string list \<Rightarrow> string list" where
  "parse_loop copy lines [] = lines"
| "parse_loop copy lines (line # rest) =
     (if startswith line ''! '' then parse_loop True lines rest
      else if copy then
        (if startswith line ''No pages of'' \<or> startswith line ''Output written'' \<or>
            startswith line ''!  ==> Fatal error o''
         then lines
         else parse_loop copy (lines @ [line]) rest)
      else parse_loop copy lines rest)"

definition parse_log :: "string \<Rightarrow> string option" where
  "parse_log logdata =
     (if logdata = [] then None
      else Some (join ''\<newline>'' (parse_loop False [] (split_on CHR ''\<newline>'' logdata))))"

subsection \<open>The geometry that \<^verbatim>\<open>dvipng\<close> prints\<close>

text \<open>
  \<^verbatim>\<open>DVIPNG_REGEX = re.compile(r"^ depth=(\d+) height=(\d+) width=(\d+)")\<close>, searched
  in one line. The pattern is anchored at the start; each \<^verbatim>\<open>\d+\<close> is greedy and is
  followed by a character that is not a digit, so it takes the longest run of digits.
\<close>

definition is_digit :: "char \<Rightarrow> bool" where
  "is_digit c = (c \<in> set ''0123456789'')"

definition literal :: "string \<Rightarrow> string \<Rightarrow> string option" where
  "literal lit s = (if startswith s lit then Some (drop (length lit) s) else None)"

definition digits1 :: "string \<Rightarrow> (string \<times> string) option" where
  "digits1 s =
     (if takeWhile is_digit s = [] then None
      else Some (takeWhile is_digit s, dropWhile is_digit s))"

definition dvipng_regex_search :: "string \<Rightarrow> (string \<times> string \<times> string) option" where
  "dvipng_regex_search line =
     (case literal '' depth='' line of
        None \<Rightarrow> None
      | Some r1 \<Rightarrow>
     (case digits1 r1 of
        None \<Rightarrow> None
      | Some (d, r2) \<Rightarrow>
     (case literal '' height='' r2 of
        None \<Rightarrow> None
      | Some r3 \<Rightarrow>
     (case digits1 r3 of
        None \<Rightarrow> None
      | Some (h, r4) \<Rightarrow>
     (case literal '' width='' r4 of
        None \<Rightarrow> None
      | Some r5 \<Rightarrow>
     (case digits1 r5 of
        None \<Rightarrow> None
      | Some (w, r6) \<Rightarrow> Some (d, h, w)))))))"

text \<open>The loop over the lines: the groups of the first line that matches.\<close>

fun first_match :: "string list \<Rightarrow> (string \<times> string \<times> string) option" where
  "first_match [] = None"
| "first_match (line # rest) =
     (case dvipng_regex_search line of
        Some g \<Rightarrow> Some g
      | None \<Rightarrow> first_match rest)"

text \<open>\<^verbatim>\<open>dict(zip(['depth', 'height', 'width'], found.groups()))\<close>: the groups are text.\<close>

definition geometry_dict :: "string \<times> string \<times> string \<Rightarrow> (string \<times> pyval) list" where
  "geometry_dict g =
     (case g of (d, h, w) \<Rightarrow>
        [(''depth'', PyStr d), (''height'', PyStr h), (''width'', PyStr w)])"

subsection \<open>\<^verbatim>\<open>create_dvi\<close>, \<^verbatim>\<open>create_png\<close> and \<^verbatim>\<open>convert\<close>\<close>

text \<open>The names of the files beside the DVI file, as \<^verbatim>\<open>create_dvi\<close> computes them.\<close>

definition beside :: "path \<Rightarrow> string \<Rightarrow> path" where
  "beside dvi_fn ext =
     (case os_path_split dvi_fn of (path, basename) \<Rightarrow>
        os_path_join path (fst (os_path_splitext basename) @ ext))"

text \<open>
  The \<^verbatim>\<open>try\<close> statement of \<^verbatim>\<open>create_dvi\<close> without its \<^verbatim>\<open>finally\<close> block: the call
  of \<^verbatim>\<open>latex\<close> and the handler of \<^verbatim>\<open>SubprocessError\<close>, which removes the DVI file
  and, unless \<open>keep_log\<close> is set, the log, and raises the error with the message that
  \<open>parse_log\<close> finds. Any other exception passes through.
\<close>

definition latex_try :: "tool \<Rightarrow> tex2img \<Rightarrow> path \<Rightarrow> fs \<Rightarrow> error option \<times> fs" where
  "latex_try run self dvi_fn s =
     (case call run [''latex'', ''-halt-on-error'', beside dvi_fn ''.tex''] s of
        (Inl (SubprocessError m), s3) \<Rightarrow>
          (case and_then (remove_all [dvi_fn] s3)
                  (\<lambda>s4. if \<not> keep_log self then remove_all [beside dvi_fn ''.log''] s4
                        else (None, s4)) of
             (Some e, s5) \<Rightarrow> (Some e, s5)
           | (None, s5) \<Rightarrow>
               (Some (SubprocessError (case parse_log m of None \<Rightarrow> [] | Some d \<Rightarrow> d)), s5))
      | (Inl e, s3) \<Rightarrow> (Some e, s3)
      | (Inr data, s3) \<Rightarrow> (None, s3))"

definition raised_or_unit :: "error option \<times> fs \<Rightarrow> (error + unit) \<times> fs" where
  "raised_or_unit r = (case r of (None, s) \<Rightarrow> (Inr (), s) | (Some e, s) \<Rightarrow> (Inl e, s))"

text \<open>
  \<^verbatim>\<open>create_dvi\<close>: the document is written and the working directory changed before
  the \<^verbatim>\<open>try\<close> statement; the \<^verbatim>\<open>finally\<close> block removes the document and the
  auxiliary file and changes the directory back; the log is removed last, when nothing
  has been raised.
\<close>

definition create_dvi :: "tool \<Rightarrow> writer \<Rightarrow> tex2img \<Rightarrow> path \<Rightarrow> fs \<Rightarrow> (error + unit) \<times> fs" where
  "create_dvi run wr self dvi_fn s0 =
     (let path = fst (os_path_split dvi_fn);
          tex_fn = beside dvi_fn ''.tex'';
          aux_fn = beside dvi_fn ''.aux'';
          log_fn = beside dvi_fn ''.log'';
          cwd0 = cwd s0
      in raised_or_unit
           (and_then (open_write wr tex_fn (encoding self) (tex_document self) s0) (\<lambda>s1.
            and_then (if cwd0 \<noteq> path \<and> path \<noteq> [] then os_chdir path s1 else (None, s1)) (\<lambda>s2.
            and_then
              (with_finally (latex_try run self dvi_fn s2)
                 (\<lambda>s. and_then (remove_all [tex_fn, aux_fn] s) (os_chdir cwd0)))
              (remove_all [log_fn])))))"

definition dvipng_cmd :: "(pyval \<Rightarrow> string) \<Rightarrow> tex2img \<Rightarrow> path \<Rightarrow> string list" where
  "dvipng_cmd other self dvi_fn =
     [''dvipng'', ''-q*'', ''-D'', py_str other (dpi self),
      ''-bg'', background self, ''-fg'', foreground self,
      ''--height*'', ''--depth*'', ''--width*'',
      ''-o'', output_name self, dvi_fn]"

text \<open>
  The \<^verbatim>\<open>try\<close> statement of \<^verbatim>\<open>create_png\<close> without its \<^verbatim>\<open>finally\<close> block: the handler
  of \<^verbatim>\<open>SubprocessError\<close> removes the image and raises the error again.
\<close>

definition dvipng_try ::
    "tool \<Rightarrow> (pyval \<Rightarrow> string) \<Rightarrow> tex2img \<Rightarrow> path \<Rightarrow> fs \<Rightarrow> (error + string list) \<times> fs" where
  "dvipng_try run other self dvi_fn s =
     (case call run (dvipng_cmd other self dvi_fn) s of
        (Inl (SubprocessError m), s1) \<Rightarrow>
          (case remove_all [output_name self] s1 of
             (Some e, s2) \<Rightarrow> (Inl e, s2)
           | (None, s2) \<Rightarrow> (Inl (SubprocessError m), s2))
      | (r, s1) \<Rightarrow> (r, s1))"

text \<open>
  The statements after the \<^verbatim>\<open>try\<close> statement: \<^verbatim>\<open>data[0]\<close> raises \<^verbatim>\<open>IndexError\<close> when
  the tool printed nothing; the first line that matches gives the dictionary.
\<close>

definition read_geometry :: "string list \<Rightarrow> error + (string \<times> pyval) list" where
  "read_geometry data =
     (case data of
        [] \<Rightarrow> Inl IndexError
      | out # others \<Rightarrow>
          (case first_match (split_on CHR ''\<newline>'' out) of
             Some g \<Rightarrow> Inr (geometry_dict g)
           | None \<Rightarrow> Inl (ValueError ''Could not parse dvi output'')))"

text \<open>\<^verbatim>\<open>create_png\<close>: the \<^verbatim>\<open>finally\<close> block removes the DVI file.\<close>

definition create_png ::
    "tool \<Rightarrow> (pyval \<Rightarrow> string) \<Rightarrow> tex2img \<Rightarrow> path \<Rightarrow> fs \<Rightarrow> (error + (string \<times> pyval) list) \<times> fs" where
  "create_png run other self dvi_fn s0 =
     (case dvipng_try run other self dvi_fn s0 of (r, s2) \<Rightarrow>
        (case remove_all [dvi_fn] s2 of
           (Some e, s3) \<Rightarrow> (Inl e, s3)
         | (None, s3) \<Rightarrow>
             (case r of
                Inl e \<Rightarrow> (Inl e, s3)
              | Inr data \<Rightarrow> (read_geometry data, s3))))"

text \<open>
  \<^verbatim>\<open>convert\<close>. Of the exceptions of the model only \<open>OSError\<close> is an \<^verbatim>\<open>OSError\<close>; the
  handler removes the image and raises the exception again.
\<close>

definition convert_failed :: "tex2img \<Rightarrow> error \<Rightarrow> fs \<Rightarrow> (error + unit) \<times> tex2img \<times> fs" where
  "convert_failed self e s =
     (if e = OSError
      then (case remove_all [output_name self] s of
              (Some e', s') \<Rightarrow> (Inl e', self, s')
            | (None, s') \<Rightarrow> (Inl e, self, s'))
      else (Inl e, self, s))"

definition convert ::
    "tool \<Rightarrow> writer \<Rightarrow> (pyval \<Rightarrow> string) \<Rightarrow> tex2img \<Rightarrow> fs \<Rightarrow> (error + unit) \<times> tex2img \<times> fs" where
  "convert run wr other self s0 =
     (let dvi = fst (os_path_splitext (output_name self)) @ ''.dvi''
      in case create_dvi run wr self dvi s0 of
           (Inl e, s1) \<Rightarrow> convert_failed self e s1
         | (Inr u, s1) \<Rightarrow>
             (case create_png run other self dvi s1 of
                (Inl e, s2) \<Rightarrow> convert_failed self e s2
              | (Inr g, s2) \<Rightarrow> (Inr (), self\<lparr>parsed_data := Some g\<rparr>, s2)))"

subsection \<open>The specification's words\<close>

text \<open>
  "A positive number", as the specification describes the resolution: an integer or
  a float greater than zero.
\<close>

definition spec_positive_number :: "pyval \<Rightarrow> bool" where
  "spec_positive_number v =
     (case v of PyInt i \<Rightarrow> 0 < i | PyFloat x \<Rightarrow> 0 < x | _ \<Rightarrow> False)"

text \<open>
  "A non-negative integer", as the specification describes each value of the
  geometry: an \<^verbatim>\<open>int\<close> that is not negative.
\<close>

definition spec_nonneg_integer :: "pyval \<Rightarrow> bool" where
  "spec_nonneg_integer v = (case v of PyInt i \<Rightarrow> 0 \<le> i | _ \<Rightarrow> False)"

subsection \<open>The life of an instance\<close>






subsection \<open>Tools for examples\<close>

text \<open>
  A \<^verbatim>\<open>latex\<close> that writes the DVI file, the log and the auxiliary file beside the
  document \<^verbatim>\<open>/w/f.tex\<close>, and a \<^verbatim>\<open>dvipng\<close> that writes the image and prints its
  geometry. In \<open>tools_latex_fails\<close> the run of \<^verbatim>\<open>latex\<close> ends with an error and leaves
  only the log. \<open>writes\<close> is an environment in which every document can be written.
\<close>

definition tools_ok :: tool where
  "tools_ok cmd c fl =
     (if hd cmd = ''latex''
      then Exited 0
             (Decodes ''This is pdfTeX\<newline>Output written on f.dvi (1 page, 240 bytes).\<newline>'')
             (Decodes [])
             (insert ''/w/f.dvi'' (insert ''/w/f.log'' (insert ''/w/f.aux'' fl)))
      else Exited 0 (Decodes '' depth=3 height=10 width=42\<newline>'') (Decodes [])
             (insert ''/w/f.png'' fl))"


definition writes :: writer where
  "writes p enc doc = Written"

section \<open>Properties\<close>

subsection \<open>Guarded removal\<close>

lemma os_remove_error:
  "os_remove p s = Inl e \<Longrightarrow> \<not> has_nul p \<Longrightarrow> e = OSError"
  by (simp add: os_remove_def split: if_splits)

lemma remove_loop_error:
  "remove_loop ps s = (Some e, s') \<Longrightarrow> list_all (\<lambda>p. \<not> has_nul p) ps \<Longrightarrow> e = OSError"
proof (induction ps arbitrary: s)
  case Nil
  then show ?case by simp
next
  case (Cons p ps)
  show ?case
  proof (cases "os_remove p s")
    case (Inl e')
    with Cons.prems show ?thesis by (simp add: os_remove_error)
  next
    case (Inr s1)
    with Cons show ?thesis by simp
  qed
qed

lemma remove_all_quiet:
  assumes "list_all (\<lambda>p. \<not> has_nul p) ps"
  shows "fst (remove_all ps s) = None"
proof (cases "remove_loop ps s")
  case (Pair r s')
  show ?thesis
  proof (cases r)
    case None
    with Pair show ?thesis by (simp add: remove_all_def)
  next
    case (Some e)
    with Pair assms have "e = OSError" by (simp add: remove_loop_error)
    with Pair Some show ?thesis by (simp add: remove_all_def)
  qed
qed

lemma remove_loop_append:
  "remove_loop xs s = (None, s1) \<Longrightarrow> remove_loop (xs @ zs) s = remove_loop zs s1"
proof (induction xs arbitrary: s)
  case Nil
  then show ?case by simp
next
  case (Cons x xs)
  then show ?case by (cases "os_remove x s") auto
qed

text \<open>A file that \<^verbatim>\<open>os.remove\<close> removes: it has a name, exists and is not protected.\<close>

lemma remove_loop_all_removable:
  "list_all (\<lambda>x. exists_file s x \<and> resolve (cwd s) x \<notin> protected s) xs \<Longrightarrow>
   distinct (map (resolve (cwd s)) xs) \<Longrightarrow>
   remove_loop xs s = (None, s\<lparr>files := files s - resolve (cwd s) ` set xs\<rparr>)"
proof (induction xs arbitrary: s)
  case Nil
  then show ?case by simp
next
  case (Cons x xs)
  let ?s1 = "s\<lparr>files := files s - {resolve (cwd s) x}\<rparr>"
  from Cons.prems have rm: "os_remove x s = Inr ?s1"
    by (simp add: os_remove_def exists_file_def)
  from Cons.prems
  have "list_all (\<lambda>x. exists_file ?s1 x \<and> resolve (cwd ?s1) x \<notin> protected ?s1) xs"
    by (auto simp: exists_file_def list_all_iff image_iff)
  moreover from Cons.prems have "distinct (map (resolve (cwd ?s1)) xs)" by simp
  ultimately have "remove_loop xs ?s1 =
      (None, ?s1\<lparr>files := files ?s1 - resolve (cwd ?s1) ` set xs\<rparr>)"
    by (rule Cons.IH)
  moreover have "files s - {resolve (cwd s) x} - resolve (cwd s) ` set xs =
      files s - resolve (cwd s) ` set (x # xs)" by auto
  ultimately show ?case using rm by simp
qed

text \<open>
  Claim C10, as stated, fails: for a path with a NUL character \<^verbatim>\<open>os.remove\<close> raises
  \<^verbatim>\<open>ValueError\<close>, which \<^verbatim>\<open>except OSError\<close> does not catch, so the exception leaves
  \<open>remove_all\<close>.
\<close>

theorem remove_all_counterexample:
  "remove_all [[CHR ''a'', CHR 0x00, CHR ''b''], ''c'']
       \<lparr>files = {''/w/c''}, cwd = ''/w'', protected = {}\<rparr> =
     (Some (ValueError ''embedded null byte''),
      \<lparr>files = {''/w/c''}, cwd = ''/w'', protected = {}\<rparr>)"
  by (simp add: remove_all_def os_remove_def has_nul_def)

text \<open>
  Claim C10, amended. When no path of the list has a NUL character, no exception
  leaves \<open>remove_all\<close>. When the files \<open>xs\<close> at the front of the list can be removed
  (they exist, under different names, and are not protected) and the removal of the
  next file \<open>f\<close> fails, because \<open>f\<close> does not exist or is protected, the loop ends
  there: exactly the files \<open>xs\<close> are gone, and every file of the rest \<open>ys\<close> that existed
  is still there; none of them is tried on its own.
\<close>

theorem remove_all_skips_rest:
  assumes "list_all (\<lambda>p. \<not> has_nul p) ps"
    and "list_all (\<lambda>x. exists_file s x \<and> resolve (cwd s) x \<notin> protected s) xs"
    and "distinct (map (resolve (cwd s)) xs)"
    and "\<not> has_nul f"
    and "\<not> exists_file s f \<or> resolve (cwd s) f \<in> protected s"
  shows "fst (remove_all ps s) = None \<and>
         remove_all (xs @ f # ys) s =
           (None, s\<lparr>files := files s - resolve (cwd s) ` set xs\<rparr>) \<and>
         (\<forall>y\<in>set ys.
            exists_file s y \<and> resolve (cwd s) y \<notin> resolve (cwd s) ` set xs \<longrightarrow>
            exists_file (snd (remove_all (xs @ f # ys) s)) y)"
proof -
  let ?s1 = "s\<lparr>files := files s - resolve (cwd s) ` set xs\<rparr>"
  from assms(2,3) have xs: "remove_loop xs s = (None, ?s1)"
    by (rule remove_loop_all_removable)
  from assms(4,5) have "os_remove f ?s1 = Inl OSError"
    by (auto simp: os_remove_def exists_file_def)
  then have "remove_loop (f # ys) ?s1 = (Some OSError, ?s1)" by simp
  with xs have "remove_loop (xs @ f # ys) s = (Some OSError, ?s1)"
    by (simp add: remove_loop_append)
  then have res: "remove_all (xs @ f # ys) s = (None, ?s1)"
    by (simp add: remove_all_def)
  then have "\<forall>y\<in>set ys.
      exists_file s y \<and> resolve (cwd s) y \<notin> resolve (cwd s) ` set xs \<longrightarrow>
      exists_file (snd (remove_all (xs @ f # ys) s)) y"
    by (simp add: exists_file_def)
  with res assms(1) show ?thesis by (simp add: remove_all_quiet)
qed

theorem remove_all_skips_rest_witness:
  "remove_all [''a'', ''b'', ''c''] \<lparr>files = {''/w/a'', ''/w/c''}, cwd = ''/w'', protected = {}\<rparr>
     = (None, \<lparr>files = {''/w/c''}, cwd = ''/w'', protected = {}\<rparr>) \<and>
   exists_file
     (snd (remove_all [''a'', ''b'', ''c'']
             \<lparr>files = {''/w/a'', ''/w/c''}, cwd = ''/w'', protected = {}\<rparr>))
     ''c''"
  using remove_all_skips_rest
    [of "[]" "\<lparr>files = {''/w/a'', ''/w/c''}, cwd = ''/w'', protected = {}\<rparr>"
        "[''a'']" "''b''" "[''c'']"]
  by (simp add: exists_file_def resolve_def startswith_def has_nul_def)

subsection \<open>Running a tool\<close>






subsection \<open>The setters\<close>

lemma check_rgb_raises:
  "check_rgb v =
     Inl (TypeError ''isinstance() arg 2 must be a type, a tuple of types, or a union'')"
  by (simp add: check_rgb_def)

text \<open>
  Claim C4. The two colour setters reject every argument, a list of three numbers
  between 0 and 1 included: \<^verbatim>\<open>__check_rgb\<close> hands \<^verbatim>\<open>isinstance\<close> a list of types,
  which raises \<^verbatim>\<open>TypeError\<close> before the argument is looked at. No colour is ever set,
  and the exception is never the \<^verbatim>\<open>ValueError\<close> that the method means to raise.
\<close>

theorem color_setters_always_raise:
  "set_background_color other self v =
     Inl (TypeError ''isinstance() arg 2 must be a type, a tuple of types, or a union'') \<and>
   set_foreground_color other self v =
     Inl (TypeError ''isinstance() arg 2 must be a type, a tuple of types, or a union'')"
  by (simp add: set_background_color_def set_foreground_color_def check_rgb_raises)

text \<open>
  Claim C8, as stated, fails both ways: \<open>set_dpi\<close> stores the integer \<open>-5\<close>, which is
  not a positive number, and it rejects the float \<open>96.5\<close>, which is one.
\<close>

theorem set_dpi_counterexample:
  "\<not> spec_positive_number (PyInt (- 5)) \<and>
   set_dpi (Tex2img ''x'' ''f.png'' ''UTF-8'') (PyInt (- 5))
     = Inr ((Tex2img ''x'' ''f.png'' ''UTF-8'')\<lparr>dpi := PyInt (- 5)\<rparr>) \<and>
   spec_positive_number (PyFloat (193 / 2)) \<and>
   set_dpi (Tex2img ''x'' ''f.png'' ''UTF-8'') (PyFloat (193 / 2))
     = Inl (TypeError ''Dpi must be an integer'')"
  by (simp add: spec_positive_number_def set_dpi_def issubclass_def)

text \<open>
  Claim C8, amended. \<open>set_dpi\<close> accepts exactly the instances of \<^verbatim>\<open>int\<close> (every
  integer, positive or not, and the two booleans) and stores the value, whose text is
  what a later rasterization passes to \<^verbatim>\<open>dvipng\<close> after \<^verbatim>\<open>-D\<close>; every other value
  is rejected with \<^verbatim>\<open>TypeError\<close>.
\<close>

theorem set_dpi_accepts_int_instances:
  "(py_type v = T_int \<or> py_type v = T_bool \<longrightarrow>
      set_dpi self v = Inr (self\<lparr>dpi := v\<rparr>)) \<and>
   (py_type v \<noteq> T_int \<and> py_type v \<noteq> T_bool \<longrightarrow>
      set_dpi self v = Inl (TypeError ''Dpi must be an integer'')) \<and>
   (set_dpi self v = Inr self' \<longrightarrow>
      take 4 (dvipng_cmd other self' dvi_fn) = [''dvipng'', ''-q*'', ''-D'', py_str other v])"
  by (auto simp: set_dpi_def issubclass_def dvipng_cmd_def split: if_splits)

theorem set_dpi_accepts_int_instances_witness:
  "set_dpi (Tex2img ''x'' ''f.png'' ''UTF-8'') (PyInt 0)
     = Inr ((Tex2img ''x'' ''f.png'' ''UTF-8'')\<lparr>dpi := PyInt 0\<rparr>) \<and>
   set_dpi (Tex2img ''x'' ''f.png'' ''UTF-8'') (PyStr ''96'')
     = Inl (TypeError ''Dpi must be an integer'') \<and>
   take 4 (dvipng_cmd (\<lambda>v. []) ((Tex2img ''x'' ''f.png'' ''UTF-8'')\<lparr>dpi := PyInt 0\<rparr>) ''f.dvi'')
     = [''dvipng'', ''-q*'', ''-D'', ''0'']"
  using set_dpi_accepts_int_instances
      [of "PyInt 0" "Tex2img ''x'' ''f.png'' ''UTF-8''"
          "(Tex2img ''x'' ''f.png'' ''UTF-8'')\<lparr>dpi := PyInt 0\<rparr>" "\<lambda>v. []" "''f.dvi''"]
    set_dpi_accepts_int_instances
      [of "PyStr ''96''" "Tex2img ''x'' ''f.png'' ''UTF-8''"
          "Tex2img ''x'' ''f.png'' ''UTF-8''" "\<lambda>v. []" "''f.dvi''"]
  by (simp add: int_str_def nat_digits.simps)

subsection \<open>The error message of a failed run of \<^verbatim>\<open>latex\<close>\<close>

lemma parse_log_example:
  "parse_log ''This is pdfTeX\<newline>! Missing $ inserted.\<newline>l.3 a_b\<newline>!  ==> Fatal error occurred, no output PDF file produced!\<newline>Transcript written on f.log.''
     = Some ''l.3 a_b\<newline>Transcript written on f.log.''"
  by (simp add: parse_log_def startswith_def)

text \<open>
  Claim C1. On the output of a failed run the result of \<open>parse_log\<close> is not the
  region from the first marker line to the first trailer. The marker line itself, the
  line that names the error, is dropped: the loop strips \<^verbatim>\<open>"! "\<close> from it and never
  appends it. The trailer \<^verbatim>\<open>"!  ==> Fatal error o"\<close> starts with the marker too, so
  it is taken for a marker and does not end the region: the line after it is copied.
\<close>

theorem parse_log_drops_marker_line:
  "parse_log ''This is pdfTeX\<newline>! Missing $ inserted.\<newline>l.3 a_b\<newline>!  ==> Fatal error occurred, no output PDF file produced!\<newline>Transcript written on f.log.''
     = Some ''l.3 a_b\<newline>Transcript written on f.log.''"
  by (rule parse_log_example)

lemma split_on_not_empty: "split_on c s \<noteq> []"
  by (induction s) (auto split: list.splits)

lemma split_on_lines: "l \<in> set (split_on c s) \<Longrightarrow> c \<notin> set l"
proof (induction s arbitrary: l)
  case Nil
  then show ?case by simp
next
  case (Cons x s)
  then show ?case
    using split_on_not_empty[of c s]
    by (cases "split_on c s") (auto split: if_splits)
qed

lemma split_on_single: "c \<notin> set x \<Longrightarrow> split_on c x = [x]"
  by (induction x) auto

lemma split_on_append:
  "c \<notin> set x \<Longrightarrow> split_on c (x @ c # r) = x # split_on c r"
  using split_on_not_empty[of c r] by (induction x) (auto split: list.splits)

lemma split_on_join:
  "ls \<noteq> [] \<Longrightarrow> list_all (\<lambda>l. c \<notin> set l) ls \<Longrightarrow> split_on c (join [c] ls) = ls"
proof (induction "[c]" ls rule: join.induct)
  case 1
  then show ?case by simp
next
  case (2 x)
  then show ?case by (simp add: split_on_single)
next
  case (3 x y ys)
  then show ?case by (simp add: split_on_append)
qed

lemma parse_loop_lines:
  "set (parse_loop copy acc ls) \<subseteq> set acc \<union> {l \<in> set ls. \<not> startswith l ''! ''}"
proof (induction copy acc ls rule: parse_loop.induct)
  case (1 copy acc)
  show ?case by simp
next
  case (2 copy acc line rest)
  show ?case
  proof (cases "startswith line ''! ''")
    case True
    with "2.IH"(1) show ?thesis by auto
  next
    case False
    show ?thesis
    proof (cases copy)
      case no: False
      with False "2.IH"(3) show ?thesis by auto
    next
      case True
      show ?thesis
      proof (cases "startswith line ''No pages of'' \<or> startswith line ''Output written'' \<or>
            startswith line ''!  ==> Fatal error o''")
        case stop: True
        with False True show ?thesis by auto
      next
        case go: False
        with False True "2.IH"(2) show ?thesis by auto
      qed
    qed
  qed
qed

text \<open>
  Whatever the log, no line of the message that \<open>parse_log\<close> returns starts with the
  marker: the lines that introduce the errors are all dropped.
\<close>

theorem parse_log_has_no_marker_line:
  assumes "parse_log logdata = Some msg"
  shows "list_all (\<lambda>l. \<not> startswith l ''! '') (split_on CHR ''\<newline>'' msg)"
proof -
  let ?ls = "parse_loop False [] (split_on CHR ''\<newline>'' logdata)"
  from assms have msg: "msg = join ''\<newline>'' ?ls"
    by (simp add: parse_log_def split: if_splits)
  have sub: "set ?ls \<subseteq> {l \<in> set (split_on CHR ''\<newline>'' logdata). \<not> startswith l ''! ''}"
    using parse_loop_lines[of False "[]"] by simp
  show ?thesis
  proof (cases "?ls = []")
    case True
    with msg show ?thesis by (simp add: startswith_def)
  next
    case False
    from sub have "list_all (\<lambda>l. CHR ''\<newline>'' \<notin> set l) ?ls"
      by (auto simp: list_all_iff dest: split_on_lines)
    with False have "split_on CHR ''\<newline>'' msg = ?ls"
      unfolding msg by (rule split_on_join)
    with sub show ?thesis by (auto simp: list_all_iff)
  qed
qed

theorem parse_log_has_no_marker_line_witness:
  "list_all (\<lambda>l. \<not> startswith l ''! '')
     (split_on CHR ''\<newline>'' ''l.3 a_b\<newline>Transcript written on f.log.'')"
  by (rule parse_log_has_no_marker_line[OF parse_log_example])

subsection \<open>The pattern of the geometry line\<close>

lemma literal_Some: "literal lit s = Some r \<Longrightarrow> s = lit @ r"
proof -
  assume "literal lit s = Some r"
  then have "take (length lit) s = lit" and "r = drop (length lit) s"
    by (auto simp: literal_def startswith_def split: if_splits)
  then show ?thesis using append_take_drop_id[of "length lit" s] by simp
qed

lemma literal_append: "literal lit (lit @ r) = Some r"
  by (simp add: literal_def startswith_def)

lemma digits1_Some:
  "digits1 s = Some (d, r) \<Longrightarrow>
     s = d @ r \<and> d \<noteq> [] \<and> list_all is_digit d \<and> (r = [] \<or> \<not> is_digit (hd r))"
  by (auto simp: digits1_def list_all_iff hd_dropWhile dest: set_takeWhileD split: if_splits)

lemma digits1_append:
  assumes "d \<noteq> []" and "list_all is_digit d" and "r = [] \<or> \<not> is_digit (hd r)"
  shows "digits1 (d @ r) = Some (d, r)"
proof -
  from assms(3) have r: "takeWhile is_digit r = []" "dropWhile is_digit r = r"
    by (cases r; simp)+
  from assms(2) have "takeWhile is_digit (d @ r) = d @ takeWhile is_digit r"
    and "dropWhile is_digit (d @ r) = dropWhile is_digit r"
    by (simp_all add: list_all_iff takeWhile_append2 dropWhile_append2)
  with r assms(1) show ?thesis by (simp add: digits1_def)
qed

lemma regex_groups:
  assumes "dvipng_regex_search line = Some (d, h, w)"
  shows "(\<exists>rest. line = '' depth='' @ d @ '' height='' @ h @ '' width='' @ w @ rest) \<and>
         d \<noteq> [] \<and> h \<noteq> [] \<and> w \<noteq> [] \<and>
         list_all is_digit d \<and> list_all is_digit h \<and> list_all is_digit w"
proof -
  from assms obtain r1 r2 r3 r4 r5 r6 where
    l1: "literal '' depth='' line = Some r1" and d1: "digits1 r1 = Some (d, r2)" and
    l2: "literal '' height='' r2 = Some r3" and d2: "digits1 r3 = Some (h, r4)" and
    l3: "literal '' width='' r4 = Some r5" and d3: "digits1 r5 = Some (w, r6)"
    by (auto simp: dvipng_regex_search_def split: option.splits)
  have "line = '' depth='' @ r1" using literal_Some[OF l1] .
  also have "r1 = d @ r2" using digits1_Some[OF d1] by simp
  also have "r2 = '' height='' @ r3" using literal_Some[OF l2] .
  also have "r3 = h @ r4" using digits1_Some[OF d2] by simp
  also have "r4 = '' width='' @ r5" using literal_Some[OF l3] .
  also have "r5 = w @ r6" using digits1_Some[OF d3] by simp
  finally have "line = '' depth='' @ d @ '' height='' @ h @ '' width='' @ w @ r6" .
  then have "\<exists>rest. line = '' depth='' @ d @ '' height='' @ h @ '' width='' @ w @ rest" ..
  with digits1_Some[OF d1] digits1_Some[OF d2] digits1_Some[OF d3]
  show ?thesis by simp
qed

lemma regex_matches:
  assumes "d \<noteq> []" "h \<noteq> []" "w \<noteq> []"
    and "list_all is_digit d" "list_all is_digit h" "list_all is_digit w"
    and "rest = [] \<or> \<not> is_digit (hd rest)"
  shows "dvipng_regex_search ('' depth='' @ d @ '' height='' @ h @ '' width='' @ w @ rest)
         = Some (d, h, w)"
proof -
  have sp: "\<not> is_digit CHR '' ''" by (simp add: is_digit_def)
  have a: "digits1 (d @ '' height='' @ h @ '' width='' @ w @ rest)
         = Some (d, '' height='' @ h @ '' width='' @ w @ rest)"
    using assms sp by (intro digits1_append) auto
  have b: "digits1 (h @ '' width='' @ w @ rest) = Some (h, '' width='' @ w @ rest)"
    using assms sp by (intro digits1_append) auto
  have c: "digits1 (w @ rest) = Some (w, rest)"
    using assms by (intro digits1_append) auto
  show ?thesis
    unfolding dvipng_regex_search_def
    using literal_append[of "'' depth=''"] literal_append[of "'' height=''"]
      literal_append[of "'' width=''"] a b c
    by simp
qed

lemma first_match_skip:
  "list_all (\<lambda>l. dvipng_regex_search l = None) pre \<Longrightarrow>
   first_match (pre @ ls) = first_match ls"
  by (induction pre) auto

lemma first_match_none:
  "list_all (\<lambda>l. dvipng_regex_search l = None) ls \<Longrightarrow> first_match ls = None"
  by (induction ls) auto

lemma first_match_Some:
  "first_match ls = Some g \<Longrightarrow> \<exists>l\<in>set ls. dvipng_regex_search l = Some g"
  by (induction ls) (auto split: option.splits)

lemma regex_rest:
  assumes "dvipng_regex_search line = Some (d, h, w)"
  shows "\<exists>rest. line = '' depth='' @ d @ '' height='' @ h @ '' width='' @ w @ rest \<and>
                 (rest = [] \<or> \<not> is_digit (hd rest))"
proof -
  from assms obtain r1 r2 r3 r4 r5 r6 where
    l1: "literal '' depth='' line = Some r1" and d1: "digits1 r1 = Some (d, r2)" and
    l2: "literal '' height='' r2 = Some r3" and d2: "digits1 r3 = Some (h, r4)" and
    l3: "literal '' width='' r4 = Some r5" and d3: "digits1 r5 = Some (w, r6)"
    by (auto simp: dvipng_regex_search_def split: option.splits)
  have "line = '' depth='' @ r1" using literal_Some[OF l1] .
  also have "r1 = d @ r2" using digits1_Some[OF d1] by simp
  also have "r2 = '' height='' @ r3" using literal_Some[OF l2] .
  also have "r3 = h @ r4" using digits1_Some[OF d2] by simp
  also have "r4 = '' width='' @ r5" using literal_Some[OF l3] .
  also have "r5 = w @ r6" using digits1_Some[OF d3] by simp
  finally have "line = '' depth='' @ d @ '' height='' @ h @ '' width='' @ w @ r6" .
  moreover from digits1_Some[OF d3] have "r6 = [] \<or> \<not> is_digit (hd r6)" by simp
  ultimately show ?thesis by blast
qed

text \<open>
  The lines that the pattern matches, and the groups it finds in them: the line starts
  with the three labels in their order, each followed by the longest run of decimal
  digits there, which is not empty.
\<close>

lemma regex_iff:
  "dvipng_regex_search line = Some (d, h, w) \<longleftrightarrow>
     (\<exists>rest. line = '' depth='' @ d @ '' height='' @ h @ '' width='' @ w @ rest \<and>
             (rest = [] \<or> \<not> is_digit (hd rest))) \<and>
     d \<noteq> [] \<and> h \<noteq> [] \<and> w \<noteq> [] \<and>
     list_all is_digit d \<and> list_all is_digit h \<and> list_all is_digit w"
proof
  assume m: "dvipng_regex_search line = Some (d, h, w)"
  from regex_rest[OF m] regex_groups[OF m]
  show "(\<exists>rest. line = '' depth='' @ d @ '' height='' @ h @ '' width='' @ w @ rest \<and>
             (rest = [] \<or> \<not> is_digit (hd rest))) \<and>
     d \<noteq> [] \<and> h \<noteq> [] \<and> w \<noteq> [] \<and>
     list_all is_digit d \<and> list_all is_digit h \<and> list_all is_digit w"
    by simp
next
  assume a: "(\<exists>rest. line = '' depth='' @ d @ '' height='' @ h @ '' width='' @ w @ rest \<and>
             (rest = [] \<or> \<not> is_digit (hd rest))) \<and>
     d \<noteq> [] \<and> h \<noteq> [] \<and> w \<noteq> [] \<and>
     list_all is_digit d \<and> list_all is_digit h \<and> list_all is_digit w"
  then obtain rest where
    l: "line = '' depth='' @ d @ '' height='' @ h @ '' width='' @ w @ rest" and
    r: "rest = [] \<or> \<not> is_digit (hd rest)"
    by blast
  from a have "d \<noteq> []" "h \<noteq> []" "w \<noteq> []"
    "list_all is_digit d" "list_all is_digit h" "list_all is_digit w"
    by simp_all
  then have "dvipng_regex_search
      ('' depth='' @ d @ '' height='' @ h @ '' width='' @ w @ rest) = Some (d, h, w)"
    using r by (rule regex_matches)
  with l show "dvipng_regex_search line = Some (d, h, w)" by simp
qed

subsection \<open>Removal of single files\<close>

lemma remove_all_single:
  "remove_all [p] s =
     (if has_nul p then (Some (ValueError ''embedded null byte''), s)
      else (None, if resolve (cwd s) p \<in> files s \<and> resolve (cwd s) p \<notin> protected s
                  then s\<lparr>files := files s - {resolve (cwd s) p}\<rparr> else s))"
  by (simp add: remove_all_def os_remove_def)





lemma remove_all_single_quiet:
  "\<not> has_nul p \<Longrightarrow> fst (remove_all [p] s) = None"
  by (simp add: remove_all_single)



subsection \<open>Rasterizing\<close>

lemma dvipng_cmd_not_empty: "dvipng_cmd other self dvi_fn \<noteq> []"
  by (simp add: dvipng_cmd_def)

lemma dvipng_cmd_names:
  "\<not> list_ex has_nul (dvipng_cmd other self dvi_fn) \<Longrightarrow>
     \<not> has_nul dvi_fn \<and> \<not> has_nul (output_name self)"
  by (simp add: dvipng_cmd_def)






lemma create_png_zero:
  assumes "\<not> list_ex has_nul (dvipng_cmd other self dvi_fn)"
    and "run (dvipng_cmd other self dvi_fn) (cwd s) (files s) = Exited 0 out err fl"
    and "decoded [out, err] = Inr data"
  shows "fst (create_png run other self dvi_fn s) = read_geometry data"
proof -
  from assms have c: "call run (dvipng_cmd other self dvi_fn) s = (Inr data, s\<lparr>files := fl\<rparr>)"
    by (simp add: call_def dvipng_cmd_not_empty)
  then have t: "dvipng_try run other self dvi_fn s = (Inr data, s\<lparr>files := fl\<rparr>)"
    by (simp add: dvipng_try_def)
  from assms(1) have "\<not> has_nul dvi_fn" by (simp add: dvipng_cmd_names)
  then have "fst (remove_all [dvi_fn] (s\<lparr>files := fl\<rparr>)) = None"
    by (rule remove_all_single_quiet)
  with t show ?thesis
    by (cases "remove_all [dvi_fn] (s\<lparr>files := fl\<rparr>)") (simp add: create_png_def)
qed


lemma int_str_100: "int_str 100 = ''100''"
  by (simp add: int_str_def nat_digits.simps[of 100] nat_digits.simps[of 10]
      nat_digits.simps[of "Suc 0"])

lemma example_cmd:
  "\<not> list_ex has_nul (dvipng_cmd (\<lambda>v. []) (Tex2img ''x'' ''f.png'' ''UTF-8'') ''f.dvi'')"
  by (simp add: dvipng_cmd_def Tex2img_def has_nul_def int_str_100)

text \<open>
  Claim C2, as stated, fails. Only the first stream that is not empty is scanned: a
  geometry line on standard error is not found when standard output has text, and
  is found when standard output is empty. And the values returned are the text of the
  groups, not integers.
\<close>

theorem create_png_counterexample:
  "fst (create_png
         (\<lambda>cmd c fl. Exited 0 (Decodes ''This is dvipng\<newline>'')
                        (Decodes '' depth=3 height=10 width=42\<newline>'') (insert ''/w/f.png'' fl))
         (\<lambda>v. []) (Tex2img ''x'' ''f.png'' ''UTF-8'') ''f.dvi''
         \<lparr>files = {''/w/f.dvi''}, cwd = ''/w'', protected = {}\<rparr>)
     = Inl (ValueError ''Could not parse dvi output'') \<and>
   fst (create_png
         (\<lambda>cmd c fl. Exited 0 (Decodes [])
                        (Decodes '' depth=3 height=10 width=42\<newline>'') (insert ''/w/f.png'' fl))
         (\<lambda>v. []) (Tex2img ''x'' ''f.png'' ''UTF-8'') ''f.dvi''
         \<lparr>files = {''/w/f.dvi''}, cwd = ''/w'', protected = {}\<rparr>)
     = Inr [(''depth'', PyStr ''3''), (''height'', PyStr ''10''), (''width'', PyStr ''42'')] \<and>
   \<not> spec_nonneg_integer (PyStr ''3'')"
proof -
  let ?s = "\<lparr>files = {''/w/f.dvi''}, cwd = ''/w'', protected = {}\<rparr>"
  let ?self = "Tex2img ''x'' ''f.png'' ''UTF-8''"
  have m: "dvipng_regex_search '' depth=3 height=10 width=42'' = Some (''3'', ''10'', ''42'')"
    by (simp add: dvipng_regex_search_def literal_def digits1_def startswith_def is_digit_def)
  have k: "dvipng_regex_search ''This is dvipng'' = None"
    by (simp add: dvipng_regex_search_def literal_def startswith_def)
  have e: "dvipng_regex_search [] = None"
    by (simp add: dvipng_regex_search_def literal_def startswith_def)
  show ?thesis
    by (simp add: create_png_def dvipng_try_def call_def dvipng_cmd_def Tex2img_def has_nul_def
        int_str_100 remove_all_single resolve_def startswith_def read_geometry_def m k e
        geometry_dict_def spec_nonneg_integer_def)
qed

text \<open>
  Claim C2, amended. The pattern matches a line exactly when the line starts with
  \<^verbatim>\<open> depth=\<close>, \<^verbatim>\<open> height=\<close> and \<^verbatim>\<open> width=\<close> in this order, each followed by a run
  of decimal digits that is not empty; the groups are these runs, each the longest
  there. When \<^verbatim>\<open>dvipng\<close> exits with status zero and its output decodes,
  \<open>create_png\<close> scans the lines of one stream only, the first that is not empty
  (standard output, or standard error when standard output is empty). If a line of it
  matches and no line before it does, the result is the dictionary of the three
  groups of that line under \<^verbatim>\<open>depth\<close>, \<^verbatim>\<open>height\<close>, \<^verbatim>\<open>width\<close>, each value the text of
  the group. If no line of it matches, \<open>create_png\<close> raises \<^verbatim>\<open>ValueError\<close>; if both
  streams are empty, it raises \<^verbatim>\<open>IndexError\<close>.
\<close>

theorem create_png_parses_geometry:
  assumes "\<not> list_ex has_nul (dvipng_cmd other self dvi_fn)"
    and "run (dvipng_cmd other self dvi_fn) (cwd s) (files s) =
           Exited 0 (Decodes out) (Decodes err) fl"
  shows "(\<forall>line d h w.
            dvipng_regex_search line = Some (d, h, w) \<longleftrightarrow>
              (\<exists>rest. line = '' depth='' @ d @ '' height='' @ h @ '' width='' @ w @ rest \<and>
                      (rest = [] \<or> \<not> is_digit (hd rest))) \<and>
              d \<noteq> [] \<and> h \<noteq> [] \<and> w \<noteq> [] \<and>
              list_all is_digit d \<and> list_all is_digit h \<and> list_all is_digit w) \<and>
         (\<forall>t. t \<noteq> [] \<and> (t = out \<or> out = [] \<and> t = err) \<longrightarrow>
            (\<forall>pre line post d h w.
               split_on CHR ''\<newline>'' t = pre @ line # post \<and>
               list_all (\<lambda>l. dvipng_regex_search l = None) pre \<and>
               dvipng_regex_search line = Some (d, h, w) \<longrightarrow>
                 fst (create_png run other self dvi_fn s) =
                   Inr [(''depth'', PyStr d), (''height'', PyStr h), (''width'', PyStr w)]) \<and>
            (list_all (\<lambda>l. dvipng_regex_search l = None) (split_on CHR ''\<newline>'' t) \<longrightarrow>
               fst (create_png run other self dvi_fn s) =
                 Inl (ValueError ''Could not parse dvi output''))) \<and>
         (out = [] \<and> err = [] \<longrightarrow> fst (create_png run other self dvi_fn s) = Inl IndexError)"
proof (intro conjI allI impI)
  fix line d h w
  show "dvipng_regex_search line = Some (d, h, w) \<longleftrightarrow>
              (\<exists>rest. line = '' depth='' @ d @ '' height='' @ h @ '' width='' @ w @ rest \<and>
                      (rest = [] \<or> \<not> is_digit (hd rest))) \<and>
              d \<noteq> [] \<and> h \<noteq> [] \<and> w \<noteq> [] \<and>
              list_all is_digit d \<and> list_all is_digit h \<and> list_all is_digit w"
    by (rule regex_iff)
next
  fix t pre line post d h w
  assume t: "t \<noteq> [] \<and> (t = out \<or> out = [] \<and> t = err)"
    and a: "split_on CHR ''\<newline>'' t = pre @ line # post \<and>
            list_all (\<lambda>l. dvipng_regex_search l = None) pre \<and>
            dvipng_regex_search line = Some (d, h, w)"
  from t have "\<exists>others. decoded [Decodes out, Decodes err] = Inr (t # others)"
    by (cases "err = []") auto
  then obtain others where "decoded [Decodes out, Decodes err] = Inr (t # others)" ..
  from create_png_zero[where run=run and s=s, OF assms this]
  have "fst (create_png run other self dvi_fn s) = read_geometry (t # others)" .
  moreover from a have "first_match (split_on CHR ''\<newline>'' t) = Some (d, h, w)"
    by (simp add: first_match_skip)
  ultimately show "fst (create_png run other self dvi_fn s) =
      Inr [(''depth'', PyStr d), (''height'', PyStr h), (''width'', PyStr w)]"
    by (simp add: read_geometry_def geometry_dict_def)
next
  fix t
  assume t: "t \<noteq> [] \<and> (t = out \<or> out = [] \<and> t = err)"
    and a: "list_all (\<lambda>l. dvipng_regex_search l = None) (split_on CHR ''\<newline>'' t)"
  from t have "\<exists>others. decoded [Decodes out, Decodes err] = Inr (t # others)"
    by (cases "err = []") auto
  then obtain others where "decoded [Decodes out, Decodes err] = Inr (t # others)" ..
  from create_png_zero[where run=run and s=s, OF assms this]
  have "fst (create_png run other self dvi_fn s) = read_geometry (t # others)" .
  moreover from a have "first_match (split_on CHR ''\<newline>'' t) = None"
    by (rule first_match_none)
  ultimately show "fst (create_png run other self dvi_fn s) =
      Inl (ValueError ''Could not parse dvi output'')"
    by (simp add: read_geometry_def)
next
  assume "out = [] \<and> err = []"
  then have "decoded [Decodes out, Decodes err] = Inr []" by simp
  from create_png_zero[where run=run and s=s, OF assms this]
  show "fst (create_png run other self dvi_fn s) = Inl IndexError"
    by (simp add: read_geometry_def)
qed

theorem create_png_parses_geometry_witness:
  "fst (create_png
         (\<lambda>cmd c fl. Exited 0 (Decodes ''This is dvipng\<newline> depth=3 height=10 width=42\<newline>'')
                        (Decodes []) (insert ''/w/f.png'' fl))
         (\<lambda>v. []) (Tex2img ''x'' ''f.png'' ''UTF-8'') ''f.dvi''
         \<lparr>files = {''/w/f.dvi''}, cwd = ''/w'', protected = {}\<rparr>)
     = Inr [(''depth'', PyStr ''3''), (''height'', PyStr ''10''), (''width'', PyStr ''42'')] \<and>
   dvipng_regex_search '' depth=1 height=2 width=3'' = Some (''1'', ''2'', ''3'')"
proof -
  let ?run = "\<lambda>(cmd :: string list) (c :: path) (fl :: path set).
      Exited 0 (Decodes ''This is dvipng\<newline> depth=3 height=10 width=42\<newline>'') (Decodes [])
        (insert ''/w/f.png'' fl)"
  let ?s = "\<lparr>files = {''/w/f.dvi''}, cwd = ''/w'', protected = {}\<rparr>"
  let ?self = "Tex2img ''x'' ''f.png'' ''UTF-8''"
  have nn: "\<not> list_ex has_nul (dvipng_cmd (\<lambda>v. []) ?self ''f.dvi'')"
    by (rule example_cmd)
  have r: "?run (dvipng_cmd (\<lambda>v. []) ?self ''f.dvi'') (cwd ?s) (files ?s) =
      Exited 0 (Decodes ''This is dvipng\<newline> depth=3 height=10 width=42\<newline>'') (Decodes [])
        (insert ''/w/f.png'' {''/w/f.dvi''})"
    by simp
  note T = create_png_parses_geometry
      [where run="?run" and other="\<lambda>v. []" and self="?self" and dvi_fn="''f.dvi''" and s="?s",
       OF nn r]
  have m: "dvipng_regex_search '' depth=3 height=10 width=42'' = Some (''3'', ''10'', ''42'')"
    by (simp add: dvipng_regex_search_def literal_def digits1_def startswith_def is_digit_def)
  have n: "dvipng_regex_search ''This is dvipng'' = None"
    by (simp add: dvipng_regex_search_def literal_def startswith_def)
  have a: "fst (create_png ?run (\<lambda>v. []) ?self ''f.dvi'' ?s)
     = Inr [(''depth'', PyStr ''3''), (''height'', PyStr ''10''), (''width'', PyStr ''42'')]"
    by (rule T[THEN conjunct2, THEN conjunct1, rule_format,
         of "''This is dvipng\<newline> depth=3 height=10 width=42\<newline>''",
         THEN conjunct1, rule_format,
         of "[''This is dvipng'']" "'' depth=3 height=10 width=42''" "[[]]"
            "''3''" "''10''" "''42''"])
      (simp_all add: m n)
  have b: "dvipng_regex_search '' depth=1 height=2 width=3'' = Some (''1'', ''2'', ''3'')"
    unfolding T[THEN conjunct1, rule_format, of "'' depth=1 height=2 width=3''" "''1''" "''2''" "''3''"]
    by (simp add: is_digit_def)
  from a b show ?thesis by simp
qed




subsection \<open>Typesetting\<close>

lemma split_f: "os_path_split ''f.dvi'' = ([], ''f.dvi'')"
  by (simp add: os_path_split_def rfind_def)

lemma beside_f: "beside ''f.dvi'' ext = ''f'' @ ext"
  by (simp add: beside_def split_f os_path_splitext_def os_path_join_def rfind_def
      startswith_def)

lemma resolve_w: "resolve ''/w'' (CHR ''f'' # n) = ''/w/f'' @ n"
  by (simp add: resolve_def startswith_def)

lemma resolve_w_w: "resolve c ''/w'' = ''/w''"
  by (simp add: resolve_def startswith_def)

lemma remove_all_pair:
  "\<not> has_nul p \<Longrightarrow> \<not> has_nul q \<Longrightarrow>
   remove_all [p, q] s =
     (if resolve (cwd s) p \<in> files s \<and> resolve (cwd s) p \<notin> protected s
      then remove_all [q] (s\<lparr>files := files s - {resolve (cwd s) p}\<rparr>)
      else (None, s))"
  by (simp add: remove_all_def os_remove_def)

text \<open>A run of \<^verbatim>\<open>latex\<close> that succeeds.\<close>

lemma latex_try_f_ok:
  "latex_try tools_ok self ''f.dvi'' \<lparr>files = {''/w/f.tex''}, cwd = ''/w'', protected = {}\<rparr> =
     (None, \<lparr>files = {''/w/f.dvi'', ''/w/f.log'', ''/w/f.aux'', ''/w/f.tex''}, cwd = ''/w'',
              protected = {}\<rparr>)"
  by (simp add: latex_try_def beside_f call_def has_nul_def tools_ok_def)

lemma create_dvi_f_ok:
  "create_dvi tools_ok writes self ''f.dvi'' \<lparr>files = {}, cwd = ''/w'', protected = {}\<rparr> =
     (Inr (), \<lparr>files = {''/w/f.dvi''}, cwd = ''/w'', protected = {}\<rparr>)"
proof -
  let ?s0 = "\<lparr>files = {}, cwd = ''/w'', protected = {}\<rparr>"
  let ?s1 = "\<lparr>files = {''/w/f.tex''}, cwd = ''/w'', protected = {}\<rparr>"
  let ?s3 = "\<lparr>files = {''/w/f.dvi'', ''/w/f.log'', ''/w/f.aux'', ''/w/f.tex''}, cwd = ''/w'',
              protected = {}\<rparr>"
  have w: "open_write writes ''f.tex'' (encoding self) (tex_document self) ?s0 = (None, ?s1)"
    by (simp add: open_write_def writes_def has_nul_def resolve_w)
  have n: "\<not> has_nul ''f.tex''" "\<not> has_nul ''f.aux''" "\<not> has_nul ''f.log''"
    by (simp_all add: has_nul_def)
  have f: "and_then (remove_all [''f.tex'', ''f.aux''] ?s3) (os_chdir ''/w'') =
      (None, \<lparr>files = {''/w/f.dvi'', ''/w/f.log''}, cwd = ''/w'', protected = {}\<rparr>)"
    by (simp add: remove_all_pair n remove_all_single resolve_w and_then_def os_chdir_def
        has_nul_def resolve_w_w insert_Diff_if)
  have l: "remove_all [''f.log''] \<lparr>files = {''/w/f.dvi'', ''/w/f.log''}, cwd = ''/w'',
        protected = {}\<rparr> = (None, \<lparr>files = {''/w/f.dvi''}, cwd = ''/w'', protected = {}\<rparr>)"
    by (simp add: remove_all_single n resolve_w insert_Diff_if)
  show ?thesis
    unfolding create_dvi_def Let_def split_f beside_f
    by (simp add: w and_then_def latex_try_f_ok with_finally_def f[unfolded and_then_def] l
        raised_or_unit_def)
qed


lemma split_img: "os_path_split ''img/f.dvi'' = (''img'', ''f.dvi'')"
  by (simp add: os_path_split_def rfind_def rstrip_def)

lemma beside_img: "beside ''img/f.dvi'' ext = ''img/f'' @ ext"
  by (simp add: beside_def split_img os_path_splitext_def os_path_join_def rfind_def
      startswith_def endswith_def)

lemma parse_log_emergency:
  "parse_log (''Error while executing latex -halt-on-error img/f.tex'' @
      ''This is pdfTeX\<newline>! Emergency stop.\<newline>No pages of output.\<newline>'') = Some []"
  by (simp add: parse_log_def startswith_def)

text \<open>
  Claim C3. The documentation of \<open>create_dvi\<close> promises that the temporary files are
  removed, even in the case of a \<^verbatim>\<open>latex\<close> error. For a relative \<open>dvi_fn\<close> with a
  directory they are not: the document is written to \<^verbatim>\<open>img/f.tex\<close> below the working
  directory \<^verbatim>\<open>/w\<close>, the cleanup runs after \<^verbatim>\<open>os.chdir('img')\<close> and looks for
  \<^verbatim>\<open>img/f.tex\<close> below \<^verbatim>\<open>/w/img\<close>, and after the failed run of \<^verbatim>\<open>latex\<close> the
  document \<^verbatim>\<open>/w/img/f.tex\<close> is still there.
\<close>

theorem create_dvi_relative_directory:
  "create_dvi
     (\<lambda>cmd c fl. Exited 1
        (Decodes ''This is pdfTeX\<newline>! Emergency stop.\<newline>No pages of output.\<newline>'')
        (Decodes []) fl)
     writes (Tex2img ''x'' ''img/f.png'' ''UTF-8'') ''img/f.dvi''
     \<lparr>files = {}, cwd = ''/w'', protected = {}\<rparr> =
   (Inl (SubprocessError []), \<lparr>files = {''/w/img/f.tex''}, cwd = ''/w'', protected = {}\<rparr>) \<and>
   exists_file \<lparr>files = {''/w/img/f.tex''}, cwd = ''/w'', protected = {}\<rparr>
     (beside ''img/f.dvi'' ''.tex'')"
proof -
  let ?run = "\<lambda>(cmd :: string list) (c :: path) (fl :: path set). Exited 1
        (Decodes ''This is pdfTeX\<newline>! Emergency stop.\<newline>No pages of output.\<newline>'')
        (Decodes []) fl"
  let ?self = "Tex2img ''x'' ''img/f.png'' ''UTF-8''"
  let ?s0 = "\<lparr>files = {}, cwd = ''/w'', protected = {}\<rparr>"
  let ?s1 = "\<lparr>files = {''/w/img/f.tex''}, cwd = ''/w'', protected = {}\<rparr>"
  let ?s2 = "\<lparr>files = {''/w/img/f.tex''}, cwd = ''/w/img'', protected = {}\<rparr>"
  have w: "open_write writes ''img/f.tex'' (encoding ?self) (tex_document ?self) ?s0 = (None, ?s1)"
    by (simp add: open_write_def writes_def has_nul_def resolve_def startswith_def)
  have c: "os_chdir ''img'' ?s1 = (None, ?s2)"
    by (simp add: os_chdir_def has_nul_def resolve_def startswith_def)
  have n: "\<not> has_nul ''img/f.tex''" "\<not> has_nul ''img/f.aux''" "\<not> has_nul ''img/f.log''"
    "\<not> has_nul ''img/f.dvi''"
    by (simp_all add: has_nul_def)
  have t: "latex_try ?run ?self ''img/f.dvi'' ?s2 = (Some (SubprocessError []), ?s2)"
    by (simp add: latex_try_def beside_img call_def has_nul_def remove_all_single and_then_def
        resolve_def startswith_def Tex2img_def parse_log_emergency[simplified])
  have f: "and_then (remove_all [''img/f.tex'', ''img/f.aux''] ?s2) (os_chdir ''/w'') =
      (None, ?s1)"
    by (simp add: remove_all_pair n and_then_def os_chdir_def has_nul_def resolve_def
        startswith_def)
  have "create_dvi ?run writes ?self ''img/f.dvi'' ?s0 = (Inl (SubprocessError []), ?s1)"
    unfolding create_dvi_def Let_def split_img beside_img
    by (simp add: w c and_then_def t with_finally_def f[unfolded and_then_def]
        raised_or_unit_def)
  moreover have "exists_file ?s1 (beside ''img/f.dvi'' ''.tex'')"
    by (simp add: beside_img exists_file_def has_nul_def resolve_def startswith_def)
  ultimately show ?thesis by simp
qed

subsection \<open>Conversion\<close>

lemma call_returns:
  "call run cmd s = (Inr data, s') \<Longrightarrow>
     \<exists>out err fl. run cmd (cwd s) (files s) = Exited 0 out err fl \<and>
                   decoded [out, err] = Inr data"
  by (auto simp: call_def split: if_splits outcome.splits sum.splits)

lemma dvipng_try_returns:
  "dvipng_try run other self dvi_fn s = (Inr data, s') \<Longrightarrow>
     call run (dvipng_cmd other self dvi_fn) s = (Inr data, s')"
  by (auto simp: dvipng_try_def split: prod.splits sum.splits error.splits option.splits)

lemma read_geometry_returns:
  "read_geometry data = Inr g \<Longrightarrow>
     \<exists>t others d h w. data = t # others \<and>
        first_match (split_on CHR ''\<newline>'' t) = Some (d, h, w) \<and>
        g = [(''depth'', PyStr d), (''height'', PyStr h), (''width'', PyStr w)]"
  by (auto simp: read_geometry_def geometry_dict_def split: list.splits option.splits)

lemma create_png_returns:
  assumes "create_png run other self dvi_fn s = (Inr g, s')"
  shows "\<exists>out err fl t others d h w.
           run (dvipng_cmd other self dvi_fn) (cwd s) (files s) = Exited 0 out err fl \<and>
           decoded [out, err] = Inr (t # others) \<and>
           first_match (split_on CHR ''\<newline>'' t) = Some (d, h, w) \<and>
           g = [(''depth'', PyStr d), (''height'', PyStr h), (''width'', PyStr w)]"
proof -
  obtain r s2 where t: "dvipng_try run other self dvi_fn s = (r, s2)"
    by (cases "dvipng_try run other self dvi_fn s")
  from assms t obtain data where r: "r = Inr data" and g: "read_geometry data = Inr g"
    by (auto simp: create_png_def split: prod.splits option.splits sum.splits)
  from t r have "call run (dvipng_cmd other self dvi_fn) s = (Inr data, s2)"
    by (simp add: dvipng_try_returns)
  from call_returns[OF this] obtain out err fl where
    e: "run (dvipng_cmd other self dvi_fn) (cwd s) (files s) = Exited 0 out err fl" and
    d: "decoded [out, err] = Inr data"
    by blast
  from read_geometry_returns[OF g] obtain t' others d' h w where
    "data = t' # others" "first_match (split_on CHR ''\<newline>'' t') = Some (d', h, w)"
    "g = [(''depth'', PyStr d'), (''height'', PyStr h), (''width'', PyStr w)]"
    by blast
  with e d show ?thesis by blast
qed


lemma convert_failed_raises: "isl (fst (convert_failed self e s))"
  by (simp add: convert_failed_def split: prod.splits option.splits)

lemma convert_returns:
  assumes "convert run wr other self s = (Inr u, self', s')"
  shows "\<exists>s1 g.
           create_dvi run wr self (fst (os_path_splitext (output_name self)) @ ''.dvi'') s =
             (Inr (), s1) \<and>
           create_png run other self (fst (os_path_splitext (output_name self)) @ ''.dvi'') s1 =
             (Inr g, s') \<and>
           self' = self\<lparr>parsed_data := Some g\<rparr>"
proof -
  let ?dvi = "fst (os_path_splitext (output_name self)) @ ''.dvi''"
  obtain r1 s1 where d: "create_dvi run wr self ?dvi s = (r1, s1)"
    by (cases "create_dvi run wr self ?dvi s")
  show ?thesis
  proof (cases r1)
    case (Inl e)
    with d assms convert_failed_raises[of self e s1] show ?thesis
      by (simp add: convert_def Let_def)
  next
    case (Inr u1)
    obtain r2 s2 where p: "create_png run other self ?dvi s1 = (r2, s2)"
      by (cases "create_png run other self ?dvi s1")
    show ?thesis
    proof (cases r2)
      case (Inl e)
      with d Inr p assms convert_failed_raises[of self e s2] show ?thesis
        by (simp add: convert_def Let_def)
    next
      case g: (Inr g)
      with d Inr p assms show ?thesis by (simp add: convert_def Let_def)
    qed
  qed
qed


text \<open>A conversion in which both tools succeed.\<close>

lemma splitext_png: "fst (os_path_splitext ''f.png'') = ''f''"
  by (simp add: os_path_splitext_def rfind_def)

lemma create_png_f_ok:
  "create_png tools_ok (\<lambda>v. []) (Tex2img ''x'' ''f.png'' ''UTF-8'') ''f.dvi''
       \<lparr>files = {''/w/f.dvi''}, cwd = ''/w'', protected = {}\<rparr> =
     (Inr [(''depth'', PyStr ''3''), (''height'', PyStr ''10''), (''width'', PyStr ''42'')],
      \<lparr>files = {''/w/f.png''}, cwd = ''/w'', protected = {}\<rparr>)"
proof -
  have m: "dvipng_regex_search '' depth=3 height=10 width=42'' = Some (''3'', ''10'', ''42'')"
    by (simp add: dvipng_regex_search_def literal_def digits1_def startswith_def is_digit_def)
  show ?thesis
    by (simp add: create_png_def dvipng_try_def call_def dvipng_cmd_def Tex2img_def has_nul_def
        int_str_100 tools_ok_def remove_all_single resolve_w read_geometry_def m
        geometry_dict_def insert_Diff_if)
qed

lemma convert_f_ok:
  "convert tools_ok writes (\<lambda>v. []) (Tex2img ''x'' ''f.png'' ''UTF-8'')
       \<lparr>files = {}, cwd = ''/w'', protected = {}\<rparr> =
     (Inr (),
      (Tex2img ''x'' ''f.png'' ''UTF-8'')\<lparr>parsed_data :=
         Some [(''depth'', PyStr ''3''), (''height'', PyStr ''10''), (''width'', PyStr ''42'')]\<rparr>,
      \<lparr>files = {''/w/f.png''}, cwd = ''/w'', protected = {}\<rparr>)"
proof -
  have o: "output_name (Tex2img ''x'' ''f.png'' ''UTF-8'') = ''f.png''"
    by (simp add: Tex2img_def)
  show ?thesis
    unfolding convert_def Let_def o splitext_png
    by (simp add: create_dvi_f_ok create_png_f_ok)
qed

text \<open>
  Claim C5, as stated, fails: after a successful conversion the values of the geometry
  are the matched text, \<^verbatim>\<open>'3'\<close>, \<^verbatim>\<open>'10'\<close> and \<^verbatim>\<open>'42'\<close>, of type \<^verbatim>\<open>str\<close>; none
  of them is an integer.
\<close>

theorem geometry_counterexample:
  "get_positioning_info
     (fst (snd (convert tools_ok writes (\<lambda>v. []) (Tex2img ''x'' ''f.png'' ''UTF-8'')
                  \<lparr>files = {}, cwd = ''/w'', protected = {}\<rparr>))) =
     Some [(''depth'', PyStr ''3''), (''height'', PyStr ''10''), (''width'', PyStr ''42'')] \<and>
   \<not> spec_nonneg_integer (PyStr ''3'') \<and> \<not> spec_nonneg_integer (PyStr ''10'') \<and>
   \<not> spec_nonneg_integer (PyStr ''42'')"
  by (simp add: convert_f_ok get_positioning_info_def spec_nonneg_integer_def)

text \<open>
  Claim C5, amended. After a successful conversion \<open>get_positioning_info\<close> returns a
  dictionary with the keys \<^verbatim>\<open>depth\<close>, \<^verbatim>\<open>height\<close> and \<^verbatim>\<open>width\<close>, and each value is
  a string of decimal digits that is not empty: the decimal numeral of a non-negative
  integer, not converted to \<^verbatim>\<open>int\<close>.
\<close>

theorem geometry_values_are_digit_strings:
  assumes "convert run wr other self s = (Inr u, self', s')"
  shows "\<exists>d h w.
           get_positioning_info self' =
             Some [(''depth'', PyStr d), (''height'', PyStr h), (''width'', PyStr w)] \<and>
           d \<noteq> [] \<and> h \<noteq> [] \<and> w \<noteq> [] \<and>
           list_all is_digit d \<and> list_all is_digit h \<and> list_all is_digit w"
proof -
  from convert_returns[OF assms] obtain s1 g where
    p: "create_png run other self (fst (os_path_splitext (output_name self)) @ ''.dvi'') s1 =
          (Inr g, s')"
    and self': "self' = self\<lparr>parsed_data := Some g\<rparr>"
    by blast
  from create_png_returns[OF p] obtain t d h w where
    m: "first_match (split_on CHR ''\<newline>'' t) = Some (d, h, w)" and
    g: "g = [(''depth'', PyStr d), (''height'', PyStr h), (''width'', PyStr w)]"
    by blast
  from first_match_Some[OF m] obtain l where "dvipng_regex_search l = Some (d, h, w)"
    by blast
  from regex_groups[OF this] self' g show ?thesis
    by (auto simp: get_positioning_info_def)
qed

theorem geometry_values_are_digit_strings_witness:
  "\<exists>d h w.
     get_positioning_info
       ((Tex2img ''x'' ''f.png'' ''UTF-8'')\<lparr>parsed_data :=
          Some [(''depth'', PyStr ''3''), (''height'', PyStr ''10''), (''width'', PyStr ''42'')]\<rparr>) =
       Some [(''depth'', PyStr d), (''height'', PyStr h), (''width'', PyStr w)] \<and>
     d \<noteq> [] \<and> h \<noteq> [] \<and> w \<noteq> [] \<and>
     list_all is_digit d \<and> list_all is_digit h \<and> list_all is_digit w"
  by (rule geometry_values_are_digit_strings[OF convert_f_ok])

subsection \<open>The positioning information over the life of an instance\<close>








end
